theory Spec2Isabelle
  imports Complex_Main
begin

section \<open>JSON values and the JavaScript operators applied to them\<close>

text \<open>
  The backend (\<^verbatim>\<open>src/backend/server.js\<close>) reads every remote payload as a dynamically
  typed JSON value. A JSON number is modelled as a rational, a string as a character list,
  an object as an association list read with \<open>map_of\<close> (one value per key).
\<close>

datatype json =
    JUndefined
  | JNull
  | JBool bool
  | JNum rat
  | JStr string
  | JArr "json list"
  | JObj "(string \<times> json) list"

text \<open>What \<^verbatim>\<open>if (v)\<close>, \<^verbatim>\<open>v ? a : b\<close>, \<^verbatim>\<open>!v\<close>, \<^verbatim>\<open>&&\<close> and \<^verbatim>\<open>||\<close> test.\<close>

fun truthy :: "json \<Rightarrow> bool" where
  "truthy JUndefined = False"
| "truthy JNull = False"
| "truthy (JBool b) = b"
| "truthy (JNum n) = (n \<noteq> 0)"
| "truthy (JStr s) = (s \<noteq> [])"
| "truthy (JArr xs) = True"
| "truthy (JObj fs) = True"

definition js_and :: "json \<Rightarrow> json \<Rightarrow> json" where
  "js_and a b = (if truthy a then b else a)"

definition js_or :: "json \<Rightarrow> json \<Rightarrow> json" where
  "js_or a b = (if truthy a then a else b)"

fun nullish :: "json \<Rightarrow> bool" where
  "nullish JUndefined = True"
| "nullish JNull = True"
| "nullish v = False"

text \<open>
  The property read \<^verbatim>\<open>v.p\<close> for the property names the handlers use (none of them is a
  built-in property of a string, number, boolean or array). On \<^verbatim>\<open>null\<close> and
  \<^verbatim>\<open>undefined\<close> the read throws a TypeError: every caller below tests \<open>nullish\<close> first
  and raises there.
\<close>

fun member :: "json \<Rightarrow> string \<Rightarrow> json" where
  "member (JObj fs) p = (case map_of fs p of None \<Rightarrow> JUndefined | Some v \<Rightarrow> v)"
| "member v p = JUndefined"

fun is_array :: "json \<Rightarrow> bool" where
  "is_array (JArr xs) = True"
| "is_array v = False"

fun elements :: "json \<Rightarrow> json list" where
  "elements (JArr xs) = xs"
| "elements v = []"

section \<open>Errors, remote calls and the evidence trail\<close>

text \<open>
  A thrown value is either the error of a remote call (network error or non-2xx status,
  with its message) or the TypeError of a property read on \<^verbatim>\<open>null\<close>/\<^verbatim>\<open>undefined\<close>.
\<close>

datatype js_error = AxiosError string | TypeError

type_synonym 'a outcome = "js_error + 'a"

text \<open>
  String conversion inside a template literal. The rendering of a number is the engine's;
  it is the parameter \<open>ns\<close>. An object parsed from JSON has no callable property of its
  own, so one with an own \<^verbatim>\<open>toString\<close> key cannot be converted (TypeError); any other
  object renders by \<^verbatim>\<open>Object.prototype.toString\<close>. An array joins the conversions of its
  elements with commas, \<^verbatim>\<open>null\<close> and \<^verbatim>\<open>undefined\<close> elements giving the empty string.
\<close>

fun join_comma :: "string list \<Rightarrow> string" where
  "join_comma [] = []"
| "join_comma [s] = s"
| "join_comma (s # t # ss) = s @ '','' @ join_comma (t # ss)"

fun to_str :: "(rat \<Rightarrow> string) \<Rightarrow> json \<Rightarrow> string outcome"
  and to_strs :: "(rat \<Rightarrow> string) \<Rightarrow> json list \<Rightarrow> string list outcome" where
  "to_str ns JUndefined = Inr ''undefined''"
| "to_str ns JNull = Inr ''null''"
| "to_str ns (JBool b) = Inr (if b then ''true'' else ''false'')"
| "to_str ns (JNum n) = Inr (ns n)"
| "to_str ns (JStr s) = Inr s"
| "to_str ns (JArr xs) =
     (case to_strs ns xs of Inl e \<Rightarrow> Inl e | Inr ss \<Rightarrow> Inr (join_comma ss))"
| "to_str ns (JObj fs) =
     (case map_of fs ''toString'' of
        Some v \<Rightarrow> Inl TypeError
      | None \<Rightarrow> Inr ''[object Object]'')"
| "to_strs ns [] = Inr []"
| "to_strs ns (x # xs) =
     (case (if nullish x then Inr [] else to_str ns x) of
        Inl e \<Rightarrow> Inl e
      | Inr s \<Rightarrow> (case to_strs ns xs of Inl e \<Rightarrow> Inl e | Inr ss \<Rightarrow> Inr (s # ss)))"

text \<open>
  The two conversions of a template literal \<^verbatim>\<open>${a}...${b}\<close>, left to right; the first
  one that throws ends the evaluation.
\<close>

definition to_str2 :: "(rat \<Rightarrow> string) \<Rightarrow> json \<Rightarrow> json \<Rightarrow> (string \<times> string) outcome" where
  "to_str2 ns a b =
     (case to_str ns a of
        Inl e \<Rightarrow> Inl e
      | Inr s \<Rightarrow> (case to_str ns b of Inl e \<Rightarrow> Inl e | Inr t \<Rightarrow> Inr (s, t)))"

text \<open>
  The requests sent to the management API. \<open>PostQuery queryName query\<close> is the POST to the
  project's \<^verbatim>\<open>database/query\<close> path.
\<close>

datatype request =
    GetAuthConfig
  | PatchAuthConfig
  | GetBackups
  | PatchBackups
  | PostQuery string string

text \<open>
  \<^verbatim>\<open>logEvidence(action, status, details, projectRef)\<close> appends one record and never throws
  (its file writes are inside its own try/catch). The trail keeps each record's action and
  status, in program order, interleaved with the remote requests; the record's id,
  timestamp, details payload and file sinks are not part of the model, and the
  correlation ids that the results carry (\<^verbatim>\<open>checkId\<close>, \<^verbatim>\<open>fixId\<close>) are left out with them.
\<close>

datatype event = Evidence string string | Remote request

section \<open>The query executor\<close>

text \<open>
  \<^verbatim>\<open>executeQuery(projectRef, token, query, queryName)\<close>, lines 169-224. \<open>post\<close> is what
  \<^verbatim>\<open>axios.post\<close> does for this call: it throws (\<open>Inl\<close>) or resolves with
  \<^verbatim>\<open>response.data\<close> (\<open>Inr\<close>).
\<close>

definition executeQuery ::
  "json outcome \<Rightarrow> string \<Rightarrow> string \<Rightarrow> event list \<times> json list outcome" where
  "executeQuery post query queryName =
     (case post of
        Inr data \<Rightarrow>
          (let results =
                 (if truthy data \<and> is_array data
                  then (if length (elements data) > 0 \<and> is_array (hd (elements data))
                        then elements (hd (elements data))
                        else elements data)
                  else [])
           in ([Evidence ''sql_query_attempt'' ''info'',
                Remote (PostQuery queryName query),
                Evidence ''sql_query_success'' ''success''],
               Inr results))
      | Inl error \<Rightarrow>
          ([Evidence ''sql_query_attempt'' ''info'',
            Remote (PostQuery queryName query),
            Evidence ''sql_query_failure'' ''error''],
           Inl error))"

section \<open>The environment of a handler call\<close>

text \<open>
  What the management API answers to each request of one handler call: every field is the
  outcome of the corresponding \<^verbatim>\<open>axios\<close> call, should the handler reach it. The SQL
  endpoint is keyed by the handler's \<^verbatim>\<open>queryName\<close>; the statements of the per-table
  fallback of the RLS fix are keyed by the table's position in the list.
\<close>

record remote =
  auth_config_get :: "json outcome"
  auth_config_patch :: "json outcome"
  backups_get :: "json outcome"
  backups_patch :: "json outcome"
  query_post :: "string \<Rightarrow> json outcome"
  table_query_post :: "nat \<Rightarrow> json outcome"

section \<open>The three compliance checkers\<close>

record compliance_summary =
  total_count :: nat
  passing :: nat
  failing :: nat

definition zero_summary :: compliance_summary where
  "zero_summary = \<lparr>total_count = 0, passing = 0, failing = 0\<rparr>"

text \<open>\<^verbatim>\<open>Array.prototype.map\<close> with a callback that may throw: the first throw ends the map.\<close>

fun map_outcome :: "('a \<Rightarrow> 'b outcome) \<Rightarrow> 'a list \<Rightarrow> 'b list outcome" where
  "map_outcome f [] = Inr []"
| "map_outcome f (x # xs) =
     (case f x of
        Inl e \<Rightarrow> Inl e
      | Inr y \<Rightarrow> (case map_outcome f xs of Inl e \<Rightarrow> Inl e | Inr ys \<Rightarrow> Inr (y # ys)))"

subsection \<open>MFA checker (lines 388-514)\<close>

record mfa_user =
  u_id :: json
  u_email :: json
  u_hasMFA :: json
  u_status :: string

text \<open>
  The checker returns \<^verbatim>\<open>{mfaEnabledGlobally, users, summary, checkId}\<close>, or
  \<^verbatim>\<open>{error, summary}\<close> from its catch branch.
\<close>

datatype mfa_result =
    MfaResult json "mfa_user list" compliance_summary
  | MfaError js_error compliance_summary

fun mfa_summary :: "mfa_result \<Rightarrow> compliance_summary" where
  "mfa_summary (MfaResult mfaEnabledGlobally users summary) = summary"
| "mfa_summary (MfaError error summary) = summary"

fun mfa_failed :: "mfa_result \<Rightarrow> bool" where
  "mfa_failed (MfaResult mfaEnabledGlobally users summary) = False"
| "mfa_failed (MfaError error summary) = True"

definition mfa_user_sql :: string where
  "mfa_user_sql =
     [CHR 0x0A]
       @ ''            SELECT '' @ [CHR 0x0A]
       @ ''              id, '' @ [CHR 0x0A]
       @ ''              email, '' @ [CHR 0x0A]
       @ ''              ('' @ [CHR 0x0A]
       @ ''                SELECT count(*) > 0 '' @ [CHR 0x0A]
       @ ''                FROM auth.mfa_factors '' @ [CHR 0x0A]
       @ ''                WHERE user_id = u.id'' @ [CHR 0x0A]
       @ ''              ) as has_mfa'' @ [CHR 0x0A]
       @ ''            FROM auth.users u;'' @ [CHR 0x0A]
       @ ''          ''"

text \<open>Lines 409-413. The value is the operand that decides \<^verbatim>\<open>&&\<close>/\<^verbatim>\<open>||\<close>, not a boolean.\<close>

definition mfaEnabled_of :: "json \<Rightarrow> json" where
  "mfaEnabled_of authConfig =
     js_and authConfig
       (js_or
          (js_or
             (js_and (member authConfig ''sms_provider'')
                     (JBool (member authConfig ''sms_provider'' \<noteq> JStr ''NONE'')))
             (member authConfig ''mfa_enabled''))
          (member authConfig ''external_mfa_enabled''))"

text \<open>The callback of \<^verbatim>\<open>result.map\<close>, lines 447-452.\<close>

definition mfa_user_of :: "json \<Rightarrow> mfa_user outcome" where
  "mfa_user_of user =
     (if nullish user then Inl TypeError
      else Inr \<lparr>u_id = member user ''id'',
                u_email = member user ''email'',
                u_hasMFA = member user ''has_mfa'',
                u_status = (if truthy (member user ''has_mfa'') then ''pass'' else ''fail'')\<rparr>)"

text \<open>
  With \<^verbatim>\<open>authConfig\<close> null or undefined, \<^verbatim>\<open>authConfig && ...\<close> short-circuits and the
  first throw is the read \<^verbatim>\<open>authConfig.sms_provider_auth_token\<close> in the arguments of the
  \<^verbatim>\<open>auth_config_retrieved\<close> record (line 422), before that record is written. The inner
  try/catch (lines 444-473) covers the query and the mapping of its rows.
\<close>

definition mfa_check :: "remote \<Rightarrow> event list \<times> mfa_result" where
  "mfa_check env =
     (case auth_config_get env of
        Inl err \<Rightarrow>
          ([Evidence ''mfa_check_started'' ''info'', Remote GetAuthConfig,
            Evidence ''mfa_check_failed'' ''error''],
           MfaError err zero_summary)
      | Inr authConfig \<Rightarrow>
          (let mfaEnabled = mfaEnabled_of authConfig in
           if nullish authConfig
           then ([Evidence ''mfa_check_started'' ''info'', Remote GetAuthConfig,
                  Evidence ''mfa_check_failed'' ''error''],
                 MfaError TypeError zero_summary)
           else
             (let (query_trail, result) =
                    executeQuery (query_post env ''mfa_user_query'') mfa_user_sql
                      ''mfa_user_query'';
                  (users_trail, users) =
                    (case result of
                       Inl userError \<Rightarrow> ([Evidence ''mfa_user_query_failure'' ''warning''], [])
                     | Inr rows \<Rightarrow>
                         (case map_outcome mfa_user_of rows of
                            Inl userError \<Rightarrow>
                              ([Evidence ''mfa_user_query_failure'' ''warning''], [])
                          | Inr us \<Rightarrow> ([Evidence ''user_mfa_status'' ''info''], us)));
                  summary =
                    \<lparr>total_count = length users,
                     passing = length (filter (\<lambda>u. u_status u = ''pass'') users),
                     failing = length (filter (\<lambda>u. u_status u = ''fail'') users)\<rparr>
              in ([Evidence ''mfa_check_started'' ''info'', Remote GetAuthConfig,
                   Evidence ''auth_config_retrieved'' ''info'']
                  @ query_trail @ users_trail
                  @ [Evidence ''mfa_check_completed'' ''info''],
                  MfaResult mfaEnabled users summary))))"

subsection \<open>RLS checker (lines 517-607)\<close>

record rls_table =
  t_id :: string
  t_name :: json
  t_schema :: json
  t_rlsEnabled :: json
  t_hasPolicies :: json
  t_status :: string

datatype rls_result =
    RlsResult "rls_table list" compliance_summary
  | RlsError js_error compliance_summary

fun rls_summary :: "rls_result \<Rightarrow> compliance_summary" where
  "rls_summary (RlsResult tables summary) = summary"
| "rls_summary (RlsError error summary) = summary"

fun rls_failed :: "rls_result \<Rightarrow> bool" where
  "rls_failed (RlsResult tables summary) = False"
| "rls_failed (RlsError error summary) = True"

definition rls_tables_sql :: string where
  "rls_tables_sql =
     [CHR 0x0A]
       @ ''            SELECT '' @ [CHR 0x0A]
       @ ''              n.nspname AS schemaname, '' @ [CHR 0x0A]
       @ ''              c.relname AS tablename, '' @ [CHR 0x0A]
       @ ''              pg_get_userbyid(c.relowner) AS tableowner,'' @ [CHR 0x0A]
       @ ''              (SELECT EXISTS ('' @ [CHR 0x0A]
       @ ''                SELECT 1 FROM pg_policies '' @ [CHR 0x0A]
       @ ''                WHERE schemaname = n.nspname AND tablename = c.relname'' @ [CHR 0x0A]
       @ ''              )) AS has_policies,'' @ [CHR 0x0A]
       @ ''              c.relrowsecurity AS rls_enabled'' @ [CHR 0x0A]
       @ ''            FROM pg_catalog.pg_class c'' @ [CHR 0x0A]
       @ ''            JOIN pg_catalog.pg_namespace n ON n.oid = c.relnamespace'' @ [CHR 0x0A]
       @ ''            WHERE c.relkind = 'r'' @ [CHR 0x27, CHR 0x0A]
       @ ''            AND n.nspname = 'public'' @ [CHR 0x27, CHR 0x0A]
       @ ''            AND c.relname NOT LIKE 'pg_%'' @ [CHR 0x27, CHR 0x0A]
       @ ''            AND c.relname NOT LIKE 'sql_%'' @ [CHR 0x27, CHR 0x0A]
       @ ''            ORDER BY n.nspname, c.relname;'' @ [CHR 0x0A]
       @ ''          ''"

text \<open>
  The callback of \<^verbatim>\<open>tables.map\<close>, lines 549-556. The \<^verbatim>\<open>id\<close> is the first property
  evaluated; its template literal throws on a value that cannot be converted.
\<close>

definition rls_table_of :: "(rat \<Rightarrow> string) \<Rightarrow> json \<Rightarrow> rls_table outcome" where
  "rls_table_of ns table =
     (if nullish table then Inl TypeError
      else (case to_str2 ns (member table ''schemaname'') (member table ''tablename'') of
              Inl err \<Rightarrow> Inl err
            | Inr (schemaname, tablename) \<Rightarrow>
                Inr \<lparr>t_id = schemaname @ ''.'' @ tablename,
                     t_name = member table ''tablename'',
                     t_schema = member table ''schemaname'',
                     t_rlsEnabled = member table ''rls_enabled'',
                     t_hasPolicies = member table ''has_policies'',
                     t_status = (if truthy (member table ''rls_enabled'') then ''pass''
                                 else ''fail'')\<rparr>))"

text \<open>A failing query, or a row that cannot be mapped, fails the whole checker.\<close>

definition rls_check :: "(rat \<Rightarrow> string) \<Rightarrow> remote \<Rightarrow> event list \<times> rls_result" where
  "rls_check ns env =
     (let (query_trail, result) =
            executeQuery (query_post env ''rls_tables_query'') rls_tables_sql
              ''rls_tables_query''
      in case result of
           Inl err \<Rightarrow>
             ([Evidence ''rls_check_started'' ''info''] @ query_trail
              @ [Evidence ''rls_check_failed'' ''error''],
              RlsError err zero_summary)
         | Inr tables \<Rightarrow>
             (case map_outcome (rls_table_of ns) tables of
                Inl err \<Rightarrow>
                  ([Evidence ''rls_check_started'' ''info''] @ query_trail
                   @ [Evidence ''rls_check_failed'' ''error''],
                   RlsError err zero_summary)
              | Inr publicTables \<Rightarrow>
                  (let summary =
                         \<lparr>total_count = length publicTables,
                          passing = length (filter (\<lambda>t. t_status t = ''pass'') publicTables),
                          failing = length (filter (\<lambda>t. t_status t = ''fail'') publicTables)\<rparr>
                   in ([Evidence ''rls_check_started'' ''info''] @ query_trail
                       @ [Evidence ''table_rls_status'' ''info'',
                          Evidence ''rls_check_completed'' ''info''],
                       RlsResult publicTables summary))))"

subsection \<open>PITR checker (lines 610-675)\<close>

text \<open>
  The checker returns \<^verbatim>\<open>{pitrEnabled, status, backupsConfig, checkId}\<close>, or
  \<^verbatim>\<open>{error, pitrEnabled: false, status: 'error', checkId: null}\<close> from its catch branch.
\<close>

record pitr_result =
  p_error :: "js_error option"
  pitrEnabled :: bool
  p_status :: string
  backupsConfig :: "json option"

text \<open>
  \<^verbatim>\<open>backupsResponse.data || {}\<close> is never null or undefined, so the property read cannot
  throw; \<^verbatim>\<open>=== true\<close> holds of the boolean \<^verbatim>\<open>true\<close> only.
\<close>

definition pitr_check :: "remote \<Rightarrow> event list \<times> pitr_result" where
  "pitr_check env =
     (case backups_get env of
        Inl err \<Rightarrow>
          ([Evidence ''pitr_check_started'' ''info'', Remote GetBackups,
            Evidence ''pitr_check_failed'' ''error''],
           \<lparr>p_error = Some err, pitrEnabled = False, p_status = ''error'',
            backupsConfig = None\<rparr>)
      | Inr data \<Rightarrow>
          (let config = js_or data (JObj []);
               enabled = (member config ''pitr_enabled'' = JBool True)
           in ([Evidence ''pitr_check_started'' ''info'', Remote GetBackups,
                Evidence ''pitr_config_retrieved'' ''info'',
                Evidence ''pitr_check_completed'' ''info''],
               \<lparr>p_error = None, pitrEnabled = enabled,
                p_status = (if enabled then ''pass'' else ''fail''),
                backupsConfig = Some config\<rparr>)))"

section \<open>The check orchestrator (lines 371-727)\<close>

record report_summary =
  s_mfa :: compliance_summary
  s_rls :: compliance_summary
  s_pitr :: compliance_summary
  overallStatus :: string

record report =
  mfa :: mfa_result
  rls :: rls_result
  pitr :: pitr_result
  summary :: report_summary

text \<open>
  Lines 679-699. Both shapes of an MFA or RLS result carry a \<^verbatim>\<open>summary\<close> object, so the
  defaults \<^verbatim>\<open>|| {total: 0, ...}\<close> and the \<^verbatim>\<open>?.\<close> of the source never apply.
\<close>

definition compile_result :: "mfa_result \<Rightarrow> rls_result \<Rightarrow> pitr_result \<Rightarrow> report" where
  "compile_result mfaResult rlsResult pitrResult =
     \<lparr>mfa = mfaResult, rls = rlsResult, pitr = pitrResult,
      summary =
        \<lparr>s_mfa = mfa_summary mfaResult,
         s_rls = rls_summary rlsResult,
         s_pitr =
           \<lparr>total_count = (if p_status pitrResult = ''error'' then 0 else 1),
            passing = (if p_status pitrResult = ''pass'' then 1 else 0),
            failing = (if p_status pitrResult = ''fail'' then 1 else 0)\<rparr>,
         overallStatus =
           (if failing (mfa_summary mfaResult) = 0
               \<and> failing (rls_summary rlsResult) = 0
               \<and> p_status pitrResult = ''pass''
            then ''pass'' else ''fail'')\<rparr>\<rparr>"

text \<open>
  The handler, after token validation. The three checkers run concurrently
  (\<^verbatim>\<open>Promise.all\<close>) and share nothing but the evidence sink, so their trails are returned
  side by side, between the handler's own first and last record. Nothing in the handler's
  try block throws, so the response is always the report with status 200.
\<close>

definition compliance_check ::
  "(rat \<Rightarrow> string) \<Rightarrow> remote \<Rightarrow> (event \<times> event list list \<times> event) \<times> report" where
  "compliance_check ns env =
     (let (mfa_trail, mfaResult) = mfa_check env;
          (rls_trail, rlsResult) = rls_check ns env;
          (pitr_trail, pitrResult) = pitr_check env
      in ((Evidence ''compliance_check_initiated'' ''info'',
           [mfa_trail, rls_trail, pitr_trail],
           Evidence ''compliance_check_completed'' ''success''),
          compile_result mfaResult rlsResult pitrResult))"

definition check_response :: "(rat \<Rightarrow> string) \<Rightarrow> remote \<Rightarrow> report" where
  "check_response ns env = snd (compliance_check ns env)"

section \<open>The fix orchestrator (lines 730-1294)\<close>

subsection \<open>Planning: the status probes (lines 747-917)\<close>

record probe_status =
  needsFix :: bool
  st_error :: "js_error option"

record table_ref =
  r_schema :: json
  r_name :: json

record rls_status = probe_status +
  st_tables :: "table_ref list"

definition mfa_status :: "remote \<Rightarrow> event list \<times> probe_status" where
  "mfa_status env =
     (case auth_config_get env of
        Inr authConfig \<Rightarrow>
          (let mfaNeedsFix =
                 (\<not> truthy authConfig
                  \<or> \<not> truthy
                        (js_or
                           (js_or
                              (js_and (member authConfig ''sms_provider'')
                                      (JBool (member authConfig ''sms_provider'' \<noteq> JStr ''NONE'')))
                              (member authConfig ''mfa_enabled''))
                           (member authConfig ''external_mfa_enabled'')))
           in ([Remote GetAuthConfig, Evidence ''mfa_status_checked'' ''info''],
               \<lparr>needsFix = mfaNeedsFix, st_error = None\<rparr>))
      | Inl err \<Rightarrow>
          ([Remote GetAuthConfig, Evidence ''mfa_status_check_failed'' ''error''],
           \<lparr>needsFix = False, st_error = Some err\<rparr>))"

definition rls_missing_tables_sql :: string where
  "rls_missing_tables_sql =
     [CHR 0x0A]
       @ ''              SELECT '' @ [CHR 0x0A]
       @ ''                n.nspname AS schemaname, '' @ [CHR 0x0A]
       @ ''                c.relname AS tablename'' @ [CHR 0x0A]
       @ ''              FROM pg_catalog.pg_class c'' @ [CHR 0x0A]
       @ ''              JOIN pg_catalog.pg_namespace n ON n.oid = c.relnamespace'' @ [CHR 0x0A]
       @ ''              WHERE c.relkind = 'r'' @ [CHR 0x27, CHR 0x0A]
       @ ''              AND n.nspname = 'public'' @ [CHR 0x27, CHR 0x0A]
       @ ''              AND c.relname NOT LIKE 'pg_%'' @ [CHR 0x27, CHR 0x0A]
       @ ''              AND c.relname NOT LIKE 'sql_%'' @ [CHR 0x27, CHR 0x0A]
       @ ''              AND NOT c.relrowsecurity'' @ [CHR 0x0A]
       @ ''              ORDER BY n.nspname, c.relname;'' @ [CHR 0x0A]
       @ ''            ''"

text \<open>
  The two maps over the rows, lines 824 and 830. The first one, in the arguments of the
  \<^verbatim>\<open>rls_tables_checked\<close> record, is the one that can throw: on a null row, and on a
  schema or table name that cannot be converted to a string.
\<close>

definition table_ref_of :: "(rat \<Rightarrow> string) \<Rightarrow> json \<Rightarrow> table_ref outcome" where
  "table_ref_of ns t =
     (if nullish t then Inl TypeError
      else (case to_str2 ns (member t ''schemaname'') (member t ''tablename'') of
              Inl err \<Rightarrow> Inl err
            | Inr label \<Rightarrow>
                Inr \<lparr>r_schema = member t ''schemaname'', r_name = member t ''tablename''\<rparr>))"

definition rls_status :: "(rat \<Rightarrow> string) \<Rightarrow> remote \<Rightarrow> event list \<times> rls_status" where
  "rls_status ns env =
     (let (query_trail, result) =
            executeQuery (query_post env ''rls_missing_tables_query'') rls_missing_tables_sql
              ''rls_missing_tables_query''
      in case result of
           Inl err \<Rightarrow>
             (query_trail @ [Evidence ''rls_status_check_failed'' ''error''],
              \<lparr>needsFix = False, st_error = Some err, st_tables = []\<rparr>)
         | Inr tables \<Rightarrow>
             (case map_outcome (table_ref_of ns) tables of
                Inl err \<Rightarrow>
                  (query_trail @ [Evidence ''rls_status_check_failed'' ''error''],
                   \<lparr>needsFix = False, st_error = Some err, st_tables = []\<rparr>)
              | Inr refs \<Rightarrow>
                  (query_trail @ [Evidence ''rls_tables_checked'' ''info''],
                   \<lparr>needsFix = (length tables > 0), st_error = None, st_tables = refs\<rparr>)))"

definition pitr_status :: "remote \<Rightarrow> event list \<times> probe_status" where
  "pitr_status env =
     (case backups_get env of
        Inr data \<Rightarrow>
          (let config = js_or data (JObj []);
               pitrNeedsFix = (\<not> truthy (member config ''pitr_enabled''))
           in ([Remote GetBackups, Evidence ''pitr_status_checked'' ''info''],
               \<lparr>needsFix = pitrNeedsFix, st_error = None\<rparr>))
      | Inl err \<Rightarrow>
          ([Remote GetBackups, Evidence ''pitr_status_check_failed'' ''error''],
           \<lparr>needsFix = False, st_error = Some err\<rparr>))"

subsection \<open>Applying the fixes (lines 919-1242)\<close>

record fix_outcome =
  needed :: json
  applied :: bool
  success :: bool
  error :: "js_error option"

record table_fix =
  table :: string
  tf_success :: bool
  tf_error :: "js_error option"

record rls_outcome = fix_outcome +
  tableCount :: nat
  tables :: "table_fix list"

text \<open>Lines 952-1010: one PATCH of the auth configuration, no fallback.\<close>

definition fix_mfa :: "json \<Rightarrow> remote \<Rightarrow> event list \<times> fix_outcome" where
  "fix_mfa mfaNeeded env =
     (if truthy mfaNeeded
      then (case auth_config_patch env of
              Inr response \<Rightarrow>
                ([Evidence ''mfa_fix_attempt'' ''info'', Evidence ''mfa_config_update'' ''info'',
                  Remote PatchAuthConfig, Evidence ''mfa_fix_success'' ''success''],
                 \<lparr>needed = mfaNeeded, applied = True, success = True, error = None\<rparr>)
            | Inl err \<Rightarrow>
                ([Evidence ''mfa_fix_attempt'' ''info'', Evidence ''mfa_config_update'' ''info'',
                  Remote PatchAuthConfig, Evidence ''mfa_fix_failure'' ''error''],
                 \<lparr>needed = mfaNeeded, applied = True, success = False, error = Some err\<rparr>))
      else ([], \<lparr>needed = mfaNeeded, applied = False, success = False, error = None\<rparr>))"

text \<open>
  Lines 1013-1153. The first template literals evaluated are those of line 1021, in the
  arguments of the \<^verbatim>\<open>rls_fix_attempt\<close> record and outside the inner try blocks: they
  convert the schema and the name of every table, and a throw there leaves the handler's
  try block. The later template literals (lines 1030, 1046, 1084-1118) convert the same
  values again, to the same strings, so the statements below take the converted
  \<open>(schema, name)\<close> pairs. The identifiers are quoted with double quotes (\<open>CHR 0x22\<close>) and
  the statements of the batch end in a line feed (\<open>CHR 0x0A\<close>).
\<close>

definition alter_stmt :: "string \<times> string \<Rightarrow> string" where
  "alter_stmt t =
     ''ALTER TABLE '' @ [CHR 0x22] @ fst t @ [CHR 0x22] @ ''.''
       @ [CHR 0x22] @ snd t @ [CHR 0x22] @ '' ENABLE ROW LEVEL SECURITY;''"

definition batch_query :: "(string \<times> string) list \<Rightarrow> string" where
  "batch_query ts =
     foldl (\<lambda>query t. query @ alter_stmt t @ [CHR 0x0A]) (''BEGIN;'' @ [CHR 0x0A]) ts
       @ ''COMMIT;''"

definition table_label :: "string \<times> string \<Rightarrow> string" where
  "table_label t = fst t @ ''.'' @ snd t"

text \<open>The callback of the fallback, lines 1081-1123, for the table at position \<open>i\<close>.\<close>

definition fix_table :: "remote \<Rightarrow> nat \<Rightarrow> string \<times> string \<Rightarrow> event list \<times> table_fix" where
  "fix_table env i t =
     (let (query_trail, result) =
            executeQuery (table_query_post env i) (alter_stmt t)
              (''rls_enable_'' @ fst t @ ''_'' @ snd t)
      in case result of
           Inr rows \<Rightarrow>
             ([Evidence ''rls_table_fix_attempt'' ''info''] @ query_trail
              @ [Evidence ''rls_table_fix_success'' ''success''],
              \<lparr>table = table_label t, tf_success = True, tf_error = None\<rparr>)
         | Inl tableError \<Rightarrow>
             ([Evidence ''rls_table_fix_attempt'' ''info''] @ query_trail
              @ [Evidence ''rls_table_fix_failure'' ''error''],
              \<lparr>table = table_label t, tf_success = False, tf_error = Some tableError\<rparr>))"

text \<open>
  The per-table statements run concurrently (\<^verbatim>\<open>Promise.all\<close>); the results keep the order
  of the tables, and the trail lists each statement's records in that order. No callback
  throws, so the catch of line 1141 is never entered. \<open>Inl\<close> is the throw of line 1021.
\<close>

definition fix_rls ::
  "(rat \<Rightarrow> string) \<Rightarrow> json \<Rightarrow> table_ref list \<Rightarrow> remote
     \<Rightarrow> event list \<times> rls_outcome outcome" where
  "fix_rls ns rlsNeeded status_tables env =
     (if truthy rlsNeeded
      then
        (case map_outcome (\<lambda>t. to_str2 ns (r_schema t) (r_name t)) status_tables of
           Inl err \<Rightarrow> ([], Inl err)
         | Inr names \<Rightarrow>
             (let (batch_trail, batch) =
                    executeQuery (query_post env ''rls_batch_enable'') (batch_query names)
                      ''rls_batch_enable''
              in case batch of
                   Inr rows \<Rightarrow>
                     ([Evidence ''rls_fix_attempt'' ''info'',
                       Evidence ''rls_batch_transaction'' ''info'']
                      @ batch_trail @ [Evidence ''rls_fix_success'' ''success''],
                      Inr \<lparr>needed = rlsNeeded, applied = True, success = True, error = None,
                           tableCount = length status_tables,
                           tables = map (\<lambda>t. \<lparr>table = table_label t, tf_success = True,
                                                tf_error = None\<rparr>) names\<rparr>)
                 | Inl err \<Rightarrow>
                     (let runs = map (\<lambda>(i, t). fix_table env i t) (enumerate 0 names);
                          results = map snd runs;
                          all_fixed = list_all tf_success results
                      in ([Evidence ''rls_fix_attempt'' ''info'',
                           Evidence ''rls_batch_transaction'' ''info'']
                          @ batch_trail
                          @ [Evidence ''rls_batch_fix_failure'' ''error'',
                             Evidence ''rls_individual_fix_fallback'' ''info'']
                          @ concat (map fst runs)
                          @ [Evidence ''rls_individual_fixes_completed''
                               (if all_fixed then ''success'' else ''partial_success'')],
                          Inr \<lparr>needed = rlsNeeded, applied = True, success = all_fixed,
                               error = Some err, tableCount = length status_tables,
                               tables = results\<rparr>))))
      else ([], Inr \<lparr>needed = rlsNeeded, applied = False, success = False, error = None,
                     tableCount = length status_tables, tables = []\<rparr>))"

text \<open>Lines 1156-1242: the SQL attempt, then the PATCH of the backups configuration.\<close>

definition pitr_enable_sql :: string where
  "pitr_enable_sql = ''SELECT pg_create_physical_replication_slot('pitr_slot');''"

definition fix_pitr :: "json \<Rightarrow> remote \<Rightarrow> event list \<times> fix_outcome" where
  "fix_pitr pitrNeeded env =
     (if truthy pitrNeeded
      then
        (let (sql_trail, sql) =
               executeQuery (query_post env ''pitr_enable_sql'') pitr_enable_sql
                 ''pitr_enable_sql''
         in case sql of
              Inr rows \<Rightarrow>
                ([Evidence ''pitr_fix_attempt'' ''info'', Evidence ''pitr_sql_fix_attempt'' ''info'']
                 @ sql_trail @ [Evidence ''pitr_sql_fix_success'' ''success''],
                 \<lparr>needed = pitrNeeded, applied = True, success = True, error = None\<rparr>)
            | Inl sqlError \<Rightarrow>
                (case backups_patch env of
                   Inr response \<Rightarrow>
                     ([Evidence ''pitr_fix_attempt'' ''info'',
                       Evidence ''pitr_sql_fix_attempt'' ''info'']
                      @ sql_trail
                      @ [Evidence ''pitr_sql_fix_failure'' ''warning'',
                         Evidence ''pitr_api_fix_attempt'' ''info'', Remote PatchBackups,
                         Evidence ''pitr_api_fix_success'' ''success''],
                      \<lparr>needed = pitrNeeded, applied = True, success = True, error = None\<rparr>)
                 | Inl err \<Rightarrow>
                     ([Evidence ''pitr_fix_attempt'' ''info'',
                       Evidence ''pitr_sql_fix_attempt'' ''info'']
                      @ sql_trail
                      @ [Evidence ''pitr_sql_fix_failure'' ''warning'',
                         Evidence ''pitr_api_fix_attempt'' ''info'', Remote PatchBackups,
                         Evidence ''pitr_fix_failure'' ''error''],
                      \<lparr>needed = pitrNeeded, applied = True, success = False,
                       error = Some err\<rparr>)))
      else ([], \<lparr>needed = pitrNeeded, applied = False, success = False, error = None\<rparr>))"

subsection \<open>The handler and its result (lines 730-745 and 1244-1293)\<close>

record fix_labels =
  f_mfa :: string
  f_rls :: string
  f_pitr :: string

record fix_details =
  d_mfa :: fix_outcome
  d_rls :: rls_outcome
  d_pitr :: fix_outcome

record fix_response =
  labels :: fix_labels
  details :: fix_details

text \<open>
  \<^verbatim>\<open>const { fixMfa = true, fixRls = true, fixPitr = true } = req.body\<close>: the default applies
  to a property that is \<^verbatim>\<open>undefined\<close>; the destructuring itself throws on a body that is
  null or undefined.
\<close>

definition body_flag :: "json \<Rightarrow> string \<Rightarrow> json" where
  "body_flag body p = (if member body p = JUndefined then JBool True else member body p)"

text \<open>
  Lines 1244-1265: the result (\<open>labels\<close> is its \<^verbatim>\<open>summary\<close>) and the overall success
  flag that picks the status of the last evidence record.
\<close>

definition fix_result :: "fix_outcome \<Rightarrow> rls_outcome \<Rightarrow> fix_outcome \<Rightarrow> fix_response" where
  "fix_result mfaFix rlsFix pitrFix =
     \<lparr>labels =
        \<lparr>f_mfa = (if \<not> truthy (needed mfaFix) then ''no_action_needed''
                  else if success mfaFix then ''fixed'' else ''failed''),
         f_rls = (if \<not> truthy (needed rlsFix) then ''no_action_needed''
                  else if success rlsFix then ''fixed''
                  else if list_ex tf_success (tables rlsFix) then ''partially_fixed''
                  else ''failed''),
         f_pitr = (if \<not> truthy (needed pitrFix) then ''no_action_needed''
                   else if success pitrFix then ''fixed'' else ''failed'')\<rparr>,
      details = \<lparr>d_mfa = mfaFix, d_rls = rlsFix, d_pitr = pitrFix\<rparr>\<rparr>"

definition allSuccessful :: "fix_outcome \<Rightarrow> rls_outcome \<Rightarrow> fix_outcome \<Rightarrow> bool" where
  "allSuccessful mfaFix rlsFix pitrFix =
     ((\<not> truthy (needed mfaFix) \<or> success mfaFix)
      \<and> (\<not> truthy (needed rlsFix) \<or> success rlsFix)
      \<and> (\<not> truthy (needed pitrFix) \<or> success pitrFix))"

text \<open>
  The handler, after token validation. Each \<^verbatim>\<open>needed\<close> flag of the plan (lines 920-941) is
  \<^verbatim>\<open>needsFix && fix...\<close>; the fixers run in sequence. A throw inside the handler's try
  block (the destructuring of a missing body, line 734, or the throw of line 1021) is
  recorded as \<^verbatim>\<open>compliance_fix_failure\<close> and answered with status 500 (\<open>Inl\<close>); otherwise
  the response is the result with status 200.
\<close>

definition compliance_fix ::
  "(rat \<Rightarrow> string) \<Rightarrow> json \<Rightarrow> remote \<Rightarrow> event list \<times> fix_response outcome" where
  "compliance_fix ns body env =
     (if nullish body then ([Evidence ''compliance_fix_failure'' ''error''], Inl TypeError)
      else
        (let fixMfa = body_flag body ''fixMfa'';
             fixRls = body_flag body ''fixRls'';
             fixPitr = body_flag body ''fixPitr'';
             (mfa_trail, mfaStatus) = mfa_status env;
             (rls_trail, rlsStatus) = rls_status ns env;
             (pitr_trail, pitrStatus) = pitr_status env;
             plan_trail =
               [Evidence ''compliance_fix_initiated'' ''info'',
                Evidence ''compliance_status_check'' ''info'']
               @ mfa_trail @ rls_trail @ pitr_trail
               @ [Evidence ''compliance_status_check_completed'' ''info'',
                  Evidence ''compliance_fix_plan'' ''info''];
             (mfa_fix_trail, mfaFix) =
               fix_mfa (js_and (JBool (needsFix mfaStatus)) fixMfa) env;
             (rls_fix_trail, rls_fix) =
               fix_rls ns (js_and (JBool (needsFix rlsStatus)) fixRls) (st_tables rlsStatus) env
         in case rls_fix of
              Inl err \<Rightarrow>
                (plan_trail @ mfa_fix_trail @ rls_fix_trail
                 @ [Evidence ''compliance_fix_failure'' ''error''],
                 Inl err)
            | Inr rlsFix \<Rightarrow>
                (let (pitr_fix_trail, pitrFix) =
                       fix_pitr (js_and (JBool (needsFix pitrStatus)) fixPitr) env
                 in (plan_trail @ mfa_fix_trail @ rls_fix_trail @ pitr_fix_trail
                     @ [Evidence ''compliance_fix_completed''
                          (if allSuccessful mfaFix rlsFix pitrFix then ''success''
                           else ''partial_success'')],
                     Inr (fix_result mfaFix rlsFix pitrFix)))))"

section \<open>Example projects\<close>

text \<open>
  A project with two users (one with an MFA factor), three tables (one without RLS) and
  PITR disabled. Its status probes find the table \<^verbatim>\<open>public.c\<close> without RLS; the batch
  transaction fails and the per-table statement succeeds.
\<close>

definition remote_scenario :: remote where
  "remote_scenario =
     \<lparr>auth_config_get = Inr (JObj [(''sms_provider'', JStr ''twilio'')]),
      auth_config_patch = Inr (JObj []),
      backups_get = Inr (JObj [(''pitr_enabled'', JBool False)]),
      backups_patch = Inr (JObj [(''pitr_enabled'', JBool True)]),
      query_post = (\<lambda>queryName.
        if queryName = ''mfa_user_query''
        then Inr (JArr [JObj [(''id'', JStr ''u1''), (''email'', JStr ''a@x.io''),
                              (''has_mfa'', JBool True)],
                        JObj [(''id'', JStr ''u2''), (''email'', JStr ''b@x.io''),
                              (''has_mfa'', JBool False)]])
        else if queryName = ''rls_tables_query''
        then Inr (JArr [JObj [(''schemaname'', JStr ''public''), (''tablename'', JStr ''a''),
                              (''has_policies'', JBool False), (''rls_enabled'', JBool True)],
                        JObj [(''schemaname'', JStr ''public''), (''tablename'', JStr ''b''),
                              (''has_policies'', JBool True), (''rls_enabled'', JBool True)],
                        JObj [(''schemaname'', JStr ''public''), (''tablename'', JStr ''c''),
                              (''has_policies'', JBool False), (''rls_enabled'', JBool False)]])
        else if queryName = ''rls_missing_tables_query''
        then Inr (JArr [JObj [(''schemaname'', JStr ''public''), (''tablename'', JStr ''c'')]])
        else Inl (AxiosError ''Request failed with status code 400'')),
      table_query_post = (\<lambda>i. Inr (JArr []))\<rparr>"

text \<open>
  A project whose auth configuration endpoint is down, with one table that has RLS and
  with PITR enabled.
\<close>

definition remote_mfa_down :: remote where
  "remote_mfa_down =
     \<lparr>auth_config_get = Inl (AxiosError ''Request failed with status code 503''),
      auth_config_patch = Inl (AxiosError ''Request failed with status code 503''),
      backups_get = Inr (JObj [(''pitr_enabled'', JBool True)]),
      backups_patch = Inr (JObj []),
      query_post = (\<lambda>queryName.
        if queryName = ''rls_tables_query''
        then Inr (JArr [JObj [(''schemaname'', JStr ''public''), (''tablename'', JStr ''a''),
                              (''has_policies'', JBool False), (''rls_enabled'', JBool True)]])
        else Inl (AxiosError ''Request failed with status code 400'')),
      table_query_post = (\<lambda>i. Inr (JArr []))\<rparr>"

text \<open>A project whose user query fails while its auth configuration is served.\<close>

definition remote_users_down :: remote where
  "remote_users_down =
     \<lparr>auth_config_get = Inr (JObj [(''mfa_enabled'', JBool True)]),
      auth_config_patch = Inr (JObj []),
      backups_get = Inr (JObj [(''pitr_enabled'', JBool True)]),
      backups_patch = Inr (JObj []),
      query_post = (\<lambda>queryName. Inl (AxiosError ''Request failed with status code 400'')),
      table_query_post = (\<lambda>i. Inl (AxiosError ''Request failed with status code 400''))\<rparr>"

text \<open>A project for which every request fails.\<close>

definition remote_unreachable :: remote where
  "remote_unreachable =
     \<lparr>auth_config_get = Inl (AxiosError ''Network Error''),
      auth_config_patch = Inl (AxiosError ''Network Error''),
      backups_get = Inl (AxiosError ''Network Error''),
      backups_patch = Inl (AxiosError ''Network Error''),
      query_post = (\<lambda>queryName. Inl (AxiosError ''Network Error'')),
      table_query_post = (\<lambda>i. Inl (AxiosError ''Network Error''))\<rparr>"

text \<open>
  A project with two tables without RLS, on which the batch transaction fails and the
  per-table statement succeeds for the first table only.
\<close>

definition remote_two_tables :: remote where
  "remote_two_tables =
     \<lparr>auth_config_get = Inr (JObj [(''mfa_enabled'', JBool True)]),
      auth_config_patch = Inr (JObj []),
      backups_get = Inr (JObj [(''pitr_enabled'', JBool True)]),
      backups_patch = Inr (JObj []),
      query_post = (\<lambda>queryName.
        if queryName = ''rls_missing_tables_query''
        then Inr (JArr [JObj [(''schemaname'', JStr ''public''), (''tablename'', JStr ''a'')],
                        JObj [(''schemaname'', JStr ''public''), (''tablename'', JStr ''b'')]])
        else Inl (AxiosError ''Request failed with status code 400'')),
      table_query_post = (\<lambda>i.
        if i = 0 then Inr (JArr [])
        else Inl (AxiosError ''Request failed with status code 400''))\<rparr>"

section \<open>The requests of a trail\<close>

fun requests :: "event list \<Rightarrow> request list" where
  "requests [] = []"
| "requests (Evidence action status # es) = requests es"
| "requests (Remote r # es) = r # requests es"

section \<open>Properties of the query executor\<close>

text \<open>
  C6. Response normalisation of the query executor: a payload that is an array whose first
  element is an array is unwrapped one level; a non-empty array whose first element is not
  an array, and the empty array, are returned as the flat row list; an absent payload
  (\<^verbatim>\<open>undefined\<close>) and every payload that is not an array give the empty row list.
\<close>

theorem executeQuery_normalizes:
  "snd (executeQuery (Inr (JArr (JArr ys # xs))) query queryName) = Inr ys
   \<and> (\<not> is_array x \<longrightarrow>
        snd (executeQuery (Inr (JArr (x # xs))) query queryName) = Inr (x # xs))
   \<and> snd (executeQuery (Inr (JArr [])) query queryName) = Inr []
   \<and> snd (executeQuery (Inr JUndefined) query queryName) = Inr []
   \<and> (\<not> is_array d \<longrightarrow> snd (executeQuery (Inr d) query queryName) = Inr [])"
  by (simp add: executeQuery_def)

theorem executeQuery_normalizes_witness:
  "\<not> is_array (JObj [(''id'', JNum 7)])
   \<and> snd (executeQuery (Inr (JArr [JObj [(''id'', JNum 7)], JNull])) ''SELECT 1;'' ''q'')
       = Inr [JObj [(''id'', JNum 7)], JNull]
   \<and> \<not> is_array (JStr ''oops'')
   \<and> snd (executeQuery (Inr (JStr ''oops'')) ''SELECT 1;'' ''q'') = Inr []"
  using executeQuery_normalizes
    [of "[]" "[JNull]" "''SELECT 1;''" "''q''" "JObj [(''id'', JNum 7)]" "JStr ''oops''"]
  by simp

text \<open>
  C7, as stated, counts a malformed payload among the failing executions. The executor
  does not: a response that arrives with a body that is not a row array (here an HTML error
  page, which the HTTP client hands over as a string) is normalised to the empty row list,
  recorded as \<^verbatim>\<open>sql_query_success\<close> and returned normally; no failure entry is written and
  nothing is raised.
\<close>

theorem executeQuery_malformed_payload_counterexample:
  "snd (executeQuery (Inr (JStr ''<html>502 Bad Gateway</html>'')) ''SELECT 1;'' ''q'')
     = Inr []
   \<and> Evidence ''sql_query_failure'' ''error''
       \<notin> set (fst (executeQuery (Inr (JStr ''<html>502 Bad Gateway</html>''))
                     ''SELECT 1;'' ''q''))
   \<and> Evidence ''sql_query_success'' ''success''
       \<in> set (fst (executeQuery (Inr (JStr ''<html>502 Bad Gateway</html>''))
                     ''SELECT 1;'' ''q''))"
  by (simp add: executeQuery_def)

text \<open>
  C7, amended. A query execution whose request throws (network error, non-2xx status)
  records the \<^verbatim>\<open>sql_query_failure\<close> evidence entry (with status \<^verbatim>\<open>error\<close>) and re-raises
  the same error to the caller; no success entry is recorded and no row list is returned.
  These are the only failing executions: whenever the request resolves, whatever its
  payload, the executor returns a row list, records \<^verbatim>\<open>sql_query_success\<close> and records no
  failure entry; a malformed payload (any body that is not an array) gives the empty row
  list.
\<close>

theorem executeQuery_reraises:
  "(post = Inl err \<longrightarrow>
      snd (executeQuery post query queryName) = Inl err
      \<and> Evidence ''sql_query_failure'' ''error''
          \<in> set (fst (executeQuery post query queryName))
      \<and> Evidence ''sql_query_success'' ''success''
          \<notin> set (fst (executeQuery post query queryName))
      \<and> (\<forall>rows. snd (executeQuery post query queryName) \<noteq> Inr rows))
   \<and> (post = Inr data \<longrightarrow>
      (\<exists>rows. snd (executeQuery post query queryName) = Inr rows)
      \<and> Evidence ''sql_query_success'' ''success''
          \<in> set (fst (executeQuery post query queryName))
      \<and> Evidence ''sql_query_failure'' ''error''
          \<notin> set (fst (executeQuery post query queryName)))
   \<and> (post = Inr data \<and> \<not> is_array data \<longrightarrow>
      snd (executeQuery post query queryName) = Inr []
      \<and> Evidence ''sql_query_success'' ''success''
          \<in> set (fst (executeQuery post query queryName))
      \<and> Evidence ''sql_query_failure'' ''error''
          \<notin> set (fst (executeQuery post query queryName)))"
  by (simp add: executeQuery_def)

theorem executeQuery_reraises_witness:
  "snd (executeQuery (Inl (AxiosError ''Request failed with status code 500''))
          ''SELECT 1;'' ''q'')
     = Inl (AxiosError ''Request failed with status code 500'')
   \<and> Evidence ''sql_query_failure'' ''error''
       \<in> set (fst (executeQuery (Inl (AxiosError ''Request failed with status code 500''))
                     ''SELECT 1;'' ''q''))
   \<and> \<not> is_array (JObj [(''message'', JStr ''bad gateway'')])
   \<and> snd (executeQuery (Inr (JObj [(''message'', JStr ''bad gateway'')])) ''SELECT 1;'' ''q'')
       = Inr []
   \<and> Evidence ''sql_query_success'' ''success''
       \<in> set (fst (executeQuery (Inr (JObj [(''message'', JStr ''bad gateway'')]))
                     ''SELECT 1;'' ''q''))"
  using executeQuery_reraises
    [of "Inl (AxiosError ''Request failed with status code 500'')"
        "AxiosError ''Request failed with status code 500''" "''SELECT 1;''" "''q''"]
    executeQuery_reraises
    [of "Inr (JObj [(''message'', JStr ''bad gateway'')])" _ "''SELECT 1;''" "''q''"
        "JObj [(''message'', JStr ''bad gateway'')]"]
  by simp

section \<open>Properties of the checkers\<close>

lemma filter_status_split:
  assumes "\<And>x. x \<in> set xs \<Longrightarrow> f x = ''pass'' \<or> f x = ''fail''"
  shows "length (filter (\<lambda>x. f x = ''pass'') xs) + length (filter (\<lambda>x. f x = ''fail'') xs)
           = length xs"
  using assms by (induction xs) auto


lemma map_outcome_mfa_status:
  "map_outcome mfa_user_of rows = Inr us \<Longrightarrow> u \<in> set us
   \<Longrightarrow> u_status u = ''pass'' \<or> u_status u = ''fail''"
  by (induction rows arbitrary: us) (auto simp: mfa_user_of_def split: sum.splits if_splits)

lemma map_outcome_rls_status:
  "map_outcome (rls_table_of ns) rows = Inr ts \<Longrightarrow> t \<in> set ts
   \<Longrightarrow> t_status t = ''pass'' \<or> t_status t = ''fail''"
  by (induction rows arbitrary: ts)
     (auto simp: rls_table_of_def split: sum.splits prod.splits if_splits)

lemma mfa_users_counts:
  assumes "map_outcome mfa_user_of rows = Inr us"
  shows "length (filter (\<lambda>u. u_status u = ''pass'') us)
           + length (filter (\<lambda>u. u_status u = ''fail'') us) = length us"
  by (rule filter_status_split) (rule map_outcome_mfa_status [OF assms])

lemma rls_tables_counts:
  assumes "map_outcome (rls_table_of ns) rows = Inr ts"
  shows "length (filter (\<lambda>t. t_status t = ''pass'') ts)
           + length (filter (\<lambda>t. t_status t = ''fail'') ts) = length ts"
  by (rule filter_status_split) (rule map_outcome_rls_status [OF assms])

lemma mfa_summary_adds:
  "passing (mfa_summary (snd (mfa_check env))) + failing (mfa_summary (snd (mfa_check env)))
     = total_count (mfa_summary (snd (mfa_check env)))"
proof (cases "executeQuery (query_post env ''mfa_user_query'') mfa_user_sql ''mfa_user_query''")
  case (Pair query_trail result)
  then show ?thesis
    by (auto simp: mfa_check_def zero_summary_def Let_def mfa_users_counts split: sum.splits)
qed

lemma rls_summary_adds:
  "passing (rls_summary (snd (rls_check ns env))) + failing (rls_summary (snd (rls_check ns env)))
     = total_count (rls_summary (snd (rls_check ns env)))"
proof (cases "executeQuery (query_post env ''rls_tables_query'') rls_tables_sql
                ''rls_tables_query''")
  case (Pair query_trail result)
  then show ?thesis
    by (auto simp: rls_check_def zero_summary_def Let_def rls_tables_counts split: sum.splits)
qed

lemma mfa_failed_zero:
  "mfa_failed (snd (mfa_check env)) \<Longrightarrow> mfa_summary (snd (mfa_check env)) = zero_summary"
  by (auto simp: mfa_check_def Let_def split: sum.splits prod.splits)

lemma rls_failed_zero:
  "rls_failed (snd (rls_check ns env)) \<Longrightarrow> rls_summary (snd (rls_check ns env)) = zero_summary"
  by (auto simp: rls_check_def Let_def split: sum.splits prod.splits)

lemma mfa_probe_error_zero:
  "isl (auth_config_get env) \<or> isl (query_post env ''mfa_user_query'')
   \<Longrightarrow> mfa_summary (snd (mfa_check env)) = zero_summary"
  by (auto simp: mfa_check_def Let_def executeQuery_def zero_summary_def isl_def
      split: sum.splits prod.splits)

lemma rls_probe_error_zero:
  "isl (query_post env ''rls_tables_query'')
   \<Longrightarrow> rls_summary (snd (rls_check ns env)) = zero_summary"
  by (auto simp: rls_check_def Let_def executeQuery_def zero_summary_def isl_def
      split: sum.splits prod.splits)



lemmas check_eval =
  check_response_def compliance_check_def compile_result_def mfa_check_def rls_check_def
  pitr_check_def executeQuery_def zero_summary_def mfa_user_of_def rls_table_of_def
  to_str2_def mfaEnabled_of_def js_and_def js_or_def

text \<open>
  C3. When the per-user query of the MFA checker is issued and fails, the checker still
  returns a normal result: the user list is empty, the summary is
  \<^verbatim>\<open>{total: 0, passing: 0, failing: 0}\<close>, and \<^verbatim>\<open>mfaEnabledGlobally\<close> is the value computed
  from the auth configuration alone. The failure is recorded as a warning and the check is
  not recorded as failed.
\<close>

theorem mfa_user_query_failure_degrades:
  "Remote (PostQuery ''mfa_user_query'' mfa_user_sql) \<in> set (fst (mfa_check env))
   \<and> query_post env ''mfa_user_query'' = Inl userError
   \<longrightarrow> (\<exists>authConfig.
          auth_config_get env = Inr authConfig
          \<and> snd (mfa_check env)
              = MfaResult (mfaEnabled_of authConfig) []
                  \<lparr>total_count = 0, passing = 0, failing = 0\<rparr>
          \<and> Evidence ''mfa_user_query_failure'' ''warning'' \<in> set (fst (mfa_check env))
          \<and> Evidence ''mfa_check_failed'' ''error'' \<notin> set (fst (mfa_check env)))"
  by (auto simp: mfa_check_def executeQuery_def Let_def split: sum.splits)

theorem mfa_user_query_failure_degrades_witness:
  "Remote (PostQuery ''mfa_user_query'' mfa_user_sql) \<in> set (fst (mfa_check remote_users_down))
   \<and> query_post remote_users_down ''mfa_user_query''
       = Inl (AxiosError ''Request failed with status code 400'')
   \<and> snd (mfa_check remote_users_down)
       = MfaResult (JBool True) [] \<lparr>total_count = 0, passing = 0, failing = 0\<rparr>"
  using mfa_user_query_failure_degrades
    [of remote_users_down "AxiosError ''Request failed with status code 400''"]
  by (simp add: remote_users_down_def mfa_check_def executeQuery_def mfaEnabled_of_def
      js_and_def js_or_def)

text \<open>
  C4. For every backups configuration that the PITR probe returns, \<^verbatim>\<open>pitrEnabled\<close> is true
  exactly when the payload is an object whose field \<^verbatim>\<open>pitr_enabled\<close> is the boolean
  \<^verbatim>\<open>true\<close>; then the status is \<^verbatim>\<open>pass\<close>, and with any other value (the string
  \<^verbatim>\<open>"true"\<close>, the number 1) \<^verbatim>\<open>pitrEnabled\<close> is false and the status is \<^verbatim>\<open>fail\<close>.
\<close>

theorem pitrEnabled_strict:
  "backups_get env = Inr data \<longrightarrow>
     pitrEnabled (snd (pitr_check env))
       = (\<exists>fields. data = JObj fields \<and> map_of fields ''pitr_enabled'' = Some (JBool True))
     \<and> (pitrEnabled (snd (pitr_check env)) \<longrightarrow> p_status (snd (pitr_check env)) = ''pass'')
     \<and> (\<not> pitrEnabled (snd (pitr_check env)) \<longrightarrow> p_status (snd (pitr_check env)) = ''fail'')"
  by (cases data) (auto simp: pitr_check_def Let_def js_or_def split: option.splits)

theorem pitrEnabled_strict_witness:
  "\<not> pitrEnabled (snd (pitr_check
        (remote_scenario\<lparr>backups_get := Inr (JObj [(''pitr_enabled'', JStr ''true'')])\<rparr>)))
   \<and> p_status (snd (pitr_check
        (remote_scenario\<lparr>backups_get := Inr (JObj [(''pitr_enabled'', JStr ''true'')])\<rparr>)))
       = ''fail''
   \<and> \<not> pitrEnabled (snd (pitr_check
        (remote_scenario\<lparr>backups_get := Inr (JObj [(''pitr_enabled'', JNum 1)])\<rparr>)))
   \<and> p_status (snd (pitr_check
        (remote_scenario\<lparr>backups_get := Inr (JObj [(''pitr_enabled'', JNum 1)])\<rparr>)))
       = ''fail''
   \<and> pitrEnabled (snd (pitr_check
        (remote_scenario\<lparr>backups_get := Inr (JObj [(''pitr_enabled'', JBool True)])\<rparr>)))
   \<and> p_status (snd (pitr_check
        (remote_scenario\<lparr>backups_get := Inr (JObj [(''pitr_enabled'', JBool True)])\<rparr>)))
       = ''pass''"
  using
    pitrEnabled_strict
      [of "remote_scenario\<lparr>backups_get := Inr (JObj [(''pitr_enabled'', JStr ''true'')])\<rparr>"
          "JObj [(''pitr_enabled'', JStr ''true'')]"]
    pitrEnabled_strict
      [of "remote_scenario\<lparr>backups_get := Inr (JObj [(''pitr_enabled'', JNum 1)])\<rparr>"
          "JObj [(''pitr_enabled'', JNum 1)]"]
    pitrEnabled_strict
      [of "remote_scenario\<lparr>backups_get := Inr (JObj [(''pitr_enabled'', JBool True)])\<rparr>"
          "JObj [(''pitr_enabled'', JBool True)]"]
  by simp




section \<open>Properties of the compliance report\<close>

lemma check_response_parts:
  "s_mfa (summary (check_response ns env)) = mfa_summary (snd (mfa_check env))"
  "s_rls (summary (check_response ns env)) = rls_summary (snd (rls_check ns env))"
  "mfa (check_response ns env) = snd (mfa_check env)"
  "rls (check_response ns env) = snd (rls_check ns env)"
  "pitr (check_response ns env) = snd (pitr_check env)"
  by (simp_all add: check_response_def compliance_check_def compile_result_def
      split: prod.splits)

lemma overallStatus_eq:
  "(overallStatus (summary (check_response ns env)) = ''pass'')
     = (failing (s_mfa (summary (check_response ns env))) = 0
        \<and> failing (s_rls (summary (check_response ns env))) = 0
        \<and> p_status (pitr (check_response ns env)) = ''pass'')"
  by (simp add: check_response_def compliance_check_def compile_result_def split: prod.splits)

lemma pitr_summary_cases:
  "passing (s_pitr (summary (check_response ns env)))
     + failing (s_pitr (summary (check_response ns env)))
     = total_count (s_pitr (summary (check_response ns env)))"
  "isl (backups_get env) \<Longrightarrow> s_pitr (summary (check_response ns env)) = zero_summary"
  "p_status (pitr (check_response ns env)) = ''error''
   \<Longrightarrow> s_pitr (summary (check_response ns env)) = zero_summary"
  by (auto simp: check_response_def compliance_check_def compile_result_def pitr_check_def
      Let_def zero_summary_def isl_def split: sum.splits prod.splits if_splits)

text \<open>
  C1. The report's \<^verbatim>\<open>summary.overallStatus\<close> is \<^verbatim>\<open>pass\<close> if and only if the failing
  count of the MFA summary is 0, the failing count of the RLS summary is 0 and the status of
  the PITR checker is \<^verbatim>\<open>pass\<close>; in every other case it is \<^verbatim>\<open>fail\<close>.
\<close>

theorem overallStatus_pass_iff:
  "(overallStatus (summary (check_response ns env)) = ''pass'')
     = (failing (s_mfa (summary (check_response ns env))) = 0
        \<and> failing (s_rls (summary (check_response ns env))) = 0
        \<and> p_status (pitr (check_response ns env)) = ''pass'')
   \<and> (overallStatus (summary (check_response ns env)) = ''pass''
        \<or> overallStatus (summary (check_response ns env)) = ''fail'')"
  by (simp add: check_response_def compliance_check_def compile_result_def split: prod.splits)

theorem overallStatus_pass_iff_witness:
  "summary (check_response (\<lambda>n. ''0'') remote_scenario)
     = \<lparr>s_mfa = \<lparr>total_count = 2, passing = 1, failing = 1\<rparr>,
        s_rls = \<lparr>total_count = 3, passing = 2, failing = 1\<rparr>,
        s_pitr = \<lparr>total_count = 1, passing = 0, failing = 1\<rparr>,
        overallStatus = ''fail''\<rparr>
   \<and> overallStatus (summary (check_response (\<lambda>n. ''0'') remote_mfa_down)) = ''pass''
   \<and> failing (s_mfa (summary (check_response (\<lambda>n. ''0'') remote_mfa_down))) = 0
   \<and> failing (s_rls (summary (check_response (\<lambda>n. ''0'') remote_mfa_down))) = 0
   \<and> p_status (pitr (check_response (\<lambda>n. ''0'') remote_mfa_down)) = ''pass''"
  using overallStatus_pass_iff [of "\<lambda>n. ''0''" remote_scenario]
    overallStatus_pass_iff [of "\<lambda>n. ''0''" remote_mfa_down]
  by (simp add: check_eval remote_scenario_def remote_mfa_down_def)

text \<open>
  C8. Every summary of the report (MFA, RLS and the synthetic PITR summary) satisfies
  \<^verbatim>\<open>passing + failing == total\<close>; when the underlying probe failed (the auth-config fetch
  or the user query for MFA, the table query for RLS, the backups fetch for PITR, or the
  checker as a whole), total, passing and failing are all 0.
\<close>

theorem summary_counts_add_up:
  "passing (s_mfa (summary (check_response ns env)))
     + failing (s_mfa (summary (check_response ns env)))
     = total_count (s_mfa (summary (check_response ns env)))
   \<and> passing (s_rls (summary (check_response ns env)))
     + failing (s_rls (summary (check_response ns env)))
     = total_count (s_rls (summary (check_response ns env)))
   \<and> passing (s_pitr (summary (check_response ns env)))
     + failing (s_pitr (summary (check_response ns env)))
     = total_count (s_pitr (summary (check_response ns env)))
   \<and> (isl (auth_config_get env) \<or> isl (query_post env ''mfa_user_query'')
        \<or> mfa_failed (mfa (check_response ns env))
      \<longrightarrow> s_mfa (summary (check_response ns env))
            = \<lparr>total_count = 0, passing = 0, failing = 0\<rparr>)
   \<and> (isl (query_post env ''rls_tables_query'') \<or> rls_failed (rls (check_response ns env))
      \<longrightarrow> s_rls (summary (check_response ns env))
            = \<lparr>total_count = 0, passing = 0, failing = 0\<rparr>)
   \<and> (isl (backups_get env) \<or> p_status (pitr (check_response ns env)) = ''error''
      \<longrightarrow> s_pitr (summary (check_response ns env))
            = \<lparr>total_count = 0, passing = 0, failing = 0\<rparr>)"
  using mfa_summary_adds [of env] rls_summary_adds [of ns env] pitr_summary_cases
    mfa_failed_zero [of env] rls_failed_zero [of ns env] mfa_probe_error_zero [of env]
    rls_probe_error_zero [where env = env and ns = ns]
  by (auto simp: check_response_parts zero_summary_def)

theorem summary_counts_add_up_witness:
  "isl (auth_config_get remote_unreachable)
   \<and> isl (query_post remote_unreachable ''rls_tables_query'')
   \<and> isl (backups_get remote_unreachable)
   \<and> s_mfa (summary (check_response (\<lambda>n. ''0'') remote_unreachable))
       = \<lparr>total_count = 0, passing = 0, failing = 0\<rparr>
   \<and> s_rls (summary (check_response (\<lambda>n. ''0'') remote_unreachable))
       = \<lparr>total_count = 0, passing = 0, failing = 0\<rparr>
   \<and> s_pitr (summary (check_response (\<lambda>n. ''0'') remote_unreachable))
       = \<lparr>total_count = 0, passing = 0, failing = 0\<rparr>"
  using summary_counts_add_up [of "\<lambda>n. ''0''" remote_unreachable]
  by (simp add: remote_unreachable_def)

text \<open>
  C10. When the MFA checker (or the RLS checker) fails as a whole, its summary has
  \<^verbatim>\<open>failing == 0\<close>, so \<^verbatim>\<open>overallStatus\<close> is then decided by the other two categories
  alone; a failed backups fetch forces \<^verbatim>\<open>fail\<close>. The project \<open>remote_mfa_down\<close> has a
  failed MFA check and the overall status \<^verbatim>\<open>pass\<close>.
\<close>

theorem errored_probe_and_overallStatus:
  "(mfa_failed (mfa (check_response ns env)) \<longrightarrow>
      failing (s_mfa (summary (check_response ns env))) = 0
      \<and> (overallStatus (summary (check_response ns env)) = ''pass'')
          = (failing (s_rls (summary (check_response ns env))) = 0
             \<and> p_status (pitr (check_response ns env)) = ''pass''))
   \<and> (rls_failed (rls (check_response ns env)) \<longrightarrow>
      failing (s_rls (summary (check_response ns env))) = 0
      \<and> (overallStatus (summary (check_response ns env)) = ''pass'')
          = (failing (s_mfa (summary (check_response ns env))) = 0
             \<and> p_status (pitr (check_response ns env)) = ''pass''))
   \<and> (isl (backups_get env) \<longrightarrow> overallStatus (summary (check_response ns env)) = ''fail'')
   \<and> mfa_failed (mfa (check_response ns remote_mfa_down))
   \<and> overallStatus (summary (check_response ns remote_mfa_down)) = ''pass''"
proof -
  have m: "mfa_failed (mfa (check_response ns env)) \<Longrightarrow>
             failing (s_mfa (summary (check_response ns env))) = 0"
    using mfa_failed_zero [of env] by (simp add: check_response_parts zero_summary_def)
  have r: "rls_failed (rls (check_response ns env)) \<Longrightarrow>
             failing (s_rls (summary (check_response ns env))) = 0"
    using rls_failed_zero [of ns env] by (simp add: check_response_parts zero_summary_def)
  have p: "isl (backups_get env) \<Longrightarrow> overallStatus (summary (check_response ns env)) = ''fail''"
    by (auto simp: check_response_def compliance_check_def compile_result_def pitr_check_def
        isl_def split: prod.splits)
  have d: "mfa_failed (mfa (check_response ns remote_mfa_down))
           \<and> overallStatus (summary (check_response ns remote_mfa_down)) = ''pass''"
    by (simp add: check_eval remote_mfa_down_def)
  from m r p d overallStatus_eq [of ns env] show ?thesis by blast
qed

theorem errored_probe_and_overallStatus_witness:
  "mfa_failed (mfa (check_response (\<lambda>n. ''0'') remote_unreachable))
   \<and> rls_failed (rls (check_response (\<lambda>n. ''0'') remote_unreachable))
   \<and> isl (backups_get remote_unreachable)
   \<and> failing (s_mfa (summary (check_response (\<lambda>n. ''0'') remote_unreachable))) = 0
   \<and> failing (s_rls (summary (check_response (\<lambda>n. ''0'') remote_unreachable))) = 0
   \<and> overallStatus (summary (check_response (\<lambda>n. ''0'') remote_unreachable)) = ''fail''
   \<and> mfa_failed (mfa (check_response (\<lambda>n. ''0'') remote_mfa_down))
   \<and> overallStatus (summary (check_response (\<lambda>n. ''0'') remote_mfa_down)) = ''pass''"
  using errored_probe_and_overallStatus [of "\<lambda>n. ''0''" remote_unreachable]
  by (simp add: check_eval remote_unreachable_def)

section \<open>Properties of the fix orchestrator\<close>

lemma requests_append: "requests (xs @ ys) = requests xs @ requests ys"
  by (induction xs rule: requests.induct) auto

lemma map_outcome_length: "map_outcome f rows = Inr ys \<Longrightarrow> length ys = length rows"
  by (induction rows arbitrary: ys) (auto split: sum.splits)

lemma fix_table_success:
  "tf_success (snd (fix_table env i t)) = (\<not> isl (table_query_post env i))"
  by (cases "table_query_post env i") (simp_all add: fix_table_def executeQuery_def)

lemma fallback_all:
  "list_all tf_success (map snd (map (\<lambda>(i, t). fix_table env i t) (enumerate 0 ts)))
     = (\<forall>i < length ts. \<not> isl (table_query_post env i))"
  by (simp add: list_all_length nth_enumerate_eq fix_table_success)

lemma fallback_ex:
  "list_ex tf_success (map snd (map (\<lambda>(i, t). fix_table env i t) (enumerate 0 ts)))
     = (\<exists>i < length ts. \<not> isl (table_query_post env i))"
  by (simp add: list_ex_length nth_enumerate_eq fix_table_success cong: conj_cong)

lemma converted_again:
  "map_outcome (table_ref_of ns) rows = Inr refs
   \<Longrightarrow> \<exists>names. map_outcome (\<lambda>t. to_str2 ns (r_schema t) (r_name t)) refs = Inr names"
  by (induction rows arbitrary: refs)
     (auto simp: table_ref_of_def split: sum.splits if_splits)

lemma rls_status_converted:
  "\<exists>names. map_outcome (\<lambda>t. to_str2 ns (r_schema t) (r_name t))
             (st_tables (snd (rls_status ns env))) = Inr names"
proof (cases "executeQuery (query_post env ''rls_missing_tables_query'') rls_missing_tables_sql
                ''rls_missing_tables_query''")
  case (Pair query_trail result)
  then show ?thesis
    by (auto simp: rls_status_def Let_def split: sum.splits dest: converted_again)
qed

lemma fix_rls_returns:
  "map_outcome (\<lambda>t. to_str2 ns (r_schema t) (r_name t)) ts = Inr names
   \<Longrightarrow> \<exists>out. snd (fix_rls ns n ts env) = Inr out"
  by (cases "query_post env ''rls_batch_enable''")
     (simp_all add: fix_rls_def executeQuery_def Let_def)

lemma fix_rls_batch_ok:
  "truthy n \<Longrightarrow> \<not> isl (query_post env ''rls_batch_enable'')
   \<Longrightarrow> snd (fix_rls ns n ts env) = Inr out \<Longrightarrow> success out"
  by (cases "query_post env ''rls_batch_enable''")
     (auto simp: fix_rls_def executeQuery_def split: sum.splits)

lemma fix_rls_fallback:
  assumes "truthy n" and "isl (query_post env ''rls_batch_enable'')"
    and "snd (fix_rls ns n ts env) = Inr out"
  shows "success out = (\<forall>i < length ts. \<not> isl (table_query_post env i))
         \<and> list_ex tf_success (tables out)
             = (\<exists>i < length ts. \<not> isl (table_query_post env i))"
proof (cases "map_outcome (\<lambda>t. to_str2 ns (r_schema t) (r_name t)) ts")
  case (Inl e)
  with assms show ?thesis by (simp add: fix_rls_def)
next
  case (Inr names)
  then have "length names = length ts" by (rule map_outcome_length)
  with assms Inr show ?thesis
    by (cases "query_post env ''rls_batch_enable''")
       (auto simp: fix_rls_def executeQuery_def Let_def fallback_all fallback_ex
          simp del: map_map)
qed

lemma fix_rls_fields:
  "snd (fix_rls ns n ts env) = Inr out \<Longrightarrow> needed out = n \<and> tableCount out = length ts"
  by (cases "query_post env ''rls_batch_enable''")
     (auto simp: fix_rls_def executeQuery_def Let_def split: if_splits sum.splits)

lemma rls_status_tables:
  assumes "needsFix (snd (rls_status ns env))"
  shows "st_tables (snd (rls_status ns env)) \<noteq> []"
proof (cases "executeQuery (query_post env ''rls_missing_tables_query'') rls_missing_tables_sql
                ''rls_missing_tables_query''")
  case (Pair query_trail result)
  with assms show ?thesis
    by (auto simp: rls_status_def Let_def split: sum.splits dest: map_outcome_length)
qed

lemma compliance_fix_rls_returns:
  "\<exists>out. snd (fix_rls ns n (st_tables (snd (rls_status ns env))) env) = Inr out"
  using rls_status_converted [of ns env] fix_rls_returns by blast

lemma compliance_fix_response:
  "snd (compliance_fix ns body env)
     = (if nullish body then Inl TypeError
        else Inr (fix_result
                    (snd (fix_mfa (js_and (JBool (needsFix (snd (mfa_status env))))
                                     (body_flag body ''fixMfa'')) env))
                    (projr (snd (fix_rls ns (js_and (JBool (needsFix (snd (rls_status ns env))))
                                               (body_flag body ''fixRls''))
                                   (st_tables (snd (rls_status ns env))) env)))
                    (snd (fix_pitr (js_and (JBool (needsFix (snd (pitr_status env))))
                                      (body_flag body ''fixPitr'')) env))))"
proof -
  obtain out where
    "snd (fix_rls ns (js_and (JBool (needsFix (snd (rls_status ns env))))
                        (body_flag body ''fixRls''))
            (st_tables (snd (rls_status ns env))) env) = Inr out"
    using compliance_fix_rls_returns by blast
  then show ?thesis
    by (simp add: compliance_fix_def Let_def case_prod_beta)
qed

lemma compliance_fix_requests:
  assumes "\<not> nullish body"
  shows "requests (fst (compliance_fix ns body env))
     = requests (fst (mfa_status env)) @ requests (fst (rls_status ns env))
       @ requests (fst (pitr_status env))
       @ requests (fst (fix_mfa (js_and (JBool (needsFix (snd (mfa_status env))))
                                   (body_flag body ''fixMfa'')) env))
       @ requests (fst (fix_rls ns (js_and (JBool (needsFix (snd (rls_status ns env))))
                                      (body_flag body ''fixRls''))
                          (st_tables (snd (rls_status ns env))) env))
       @ requests (fst (fix_pitr (js_and (JBool (needsFix (snd (pitr_status env))))
                                    (body_flag body ''fixPitr'')) env))"
proof -
  obtain out where
    "snd (fix_rls ns (js_and (JBool (needsFix (snd (rls_status ns env))))
                        (body_flag body ''fixRls''))
            (st_tables (snd (rls_status ns env))) env) = Inr out"
    using compliance_fix_rls_returns by blast
  with assms show ?thesis
    by (simp add: compliance_fix_def Let_def case_prod_beta requests_append)
qed

lemma fix_result_parts:
  "d_mfa (details (fix_result a b c)) = a"
  "d_rls (details (fix_result a b c)) = b"
  "d_pitr (details (fix_result a b c)) = c"
  "f_mfa (labels (fix_result a b c))
     = (if \<not> truthy (needed a) then ''no_action_needed''
        else if success a then ''fixed'' else ''failed'')"
  "f_rls (labels (fix_result a b c))
     = (if \<not> truthy (needed b) then ''no_action_needed''
        else if success b then ''fixed''
        else if list_ex tf_success (tables b) then ''partially_fixed'' else ''failed'')"
  "f_pitr (labels (fix_result a b c))
     = (if \<not> truthy (needed c) then ''no_action_needed''
        else if success c then ''fixed'' else ''failed'')"
  by (simp_all add: fix_result_def)

lemma needed_planned: "truthy (js_and (JBool b) flag) \<Longrightarrow> b"
  by (cases b) (simp_all add: js_and_def)

text \<open>
  C2. In a fix call whose RLS category is needed, the label of the category is
  \<^verbatim>\<open>fixed\<close> when the fix succeeded: when the batch transaction succeeded, and when it
  failed but every per-table statement of the fallback succeeded. When the batch failed
  and not every per-table statement succeeded, the label is \<^verbatim>\<open>partially_fixed\<close> if at
  least one succeeded and \<^verbatim>\<open>failed\<close> if none did.
\<close>

theorem rls_fix_label:
  "snd (compliance_fix ns body env) = Inr response
   \<and> truthy (needed (d_rls (details response)))
   \<longrightarrow> 0 < tableCount (d_rls (details response))
     \<and> (success (d_rls (details response)) \<longrightarrow> f_rls (labels response) = ''fixed'')
     \<and> (\<not> isl (query_post env ''rls_batch_enable'') \<longrightarrow> f_rls (labels response) = ''fixed'')
     \<and> (isl (query_post env ''rls_batch_enable'')
          \<and> (\<forall>i < tableCount (d_rls (details response)). \<not> isl (table_query_post env i))
        \<longrightarrow> f_rls (labels response) = ''fixed'')
     \<and> (isl (query_post env ''rls_batch_enable'')
          \<and> (\<exists>i < tableCount (d_rls (details response)). isl (table_query_post env i))
          \<and> (\<exists>i < tableCount (d_rls (details response)). \<not> isl (table_query_post env i))
        \<longrightarrow> f_rls (labels response) = ''partially_fixed'')
     \<and> (isl (query_post env ''rls_batch_enable'')
          \<and> (\<forall>i < tableCount (d_rls (details response)). isl (table_query_post env i))
        \<longrightarrow> f_rls (labels response) = ''failed'')
     \<and> (\<not> success (d_rls (details response)) \<longrightarrow>
          f_rls (labels response)
            = (if list_ex tf_success (tables (d_rls (details response)))
               then ''partially_fixed'' else ''failed''))"
proof (intro impI, elim conjE)
  let ?n = "js_and (JBool (needsFix (snd (rls_status ns env)))) (body_flag body ''fixRls'')"
  let ?ts = "st_tables (snd (rls_status ns env))"
  assume r: "snd (compliance_fix ns body env) = Inr response"
    and n: "truthy (needed (d_rls (details response)))"
  obtain out where o: "snd (fix_rls ns ?n ?ts env) = Inr out"
    using compliance_fix_rls_returns by blast
  from r o have d: "d_rls (details response) = out"
    and l: "f_rls (labels response)
              = (if \<not> truthy (needed out) then ''no_action_needed''
                 else if success out then ''fixed''
                 else if list_ex tf_success (tables out) then ''partially_fixed''
                 else ''failed'')"
    by (auto simp: compliance_fix_response fix_result_parts split: if_splits)
  note fields = fix_rls_fields [OF o]
  from n d have t: "truthy ?n" by (simp add: fields)
  then have "needsFix (snd (rls_status ns env))" by (rule needed_planned)
  then have "?ts \<noteq> []" by (rule rls_status_tables)
  then have pos: "0 < tableCount (d_rls (details response))"
    by (simp add: d fields)
  have c: "tableCount out = length ?ts" by (simp add: fields)
  have nd: "truthy (needed out)" using t by (simp add: fields)
  have ok: "\<not> isl (query_post env ''rls_batch_enable'') \<Longrightarrow> success out"
    using fix_rls_batch_ok [OF t _ o] by blast
  have fb: "isl (query_post env ''rls_batch_enable'') \<Longrightarrow>
      success out = (\<forall>i < length ?ts. \<not> isl (table_query_post env i))
      \<and> list_ex tf_success (tables out) = (\<exists>i < length ?ts. \<not> isl (table_query_post env i))"
    using fix_rls_fallback [OF t _ o] by blast
  show "0 < tableCount (d_rls (details response))
     \<and> (success (d_rls (details response)) \<longrightarrow> f_rls (labels response) = ''fixed'')
     \<and> (\<not> isl (query_post env ''rls_batch_enable'') \<longrightarrow> f_rls (labels response) = ''fixed'')
     \<and> (isl (query_post env ''rls_batch_enable'')
          \<and> (\<forall>i < tableCount (d_rls (details response)). \<not> isl (table_query_post env i))
        \<longrightarrow> f_rls (labels response) = ''fixed'')
     \<and> (isl (query_post env ''rls_batch_enable'')
          \<and> (\<exists>i < tableCount (d_rls (details response)). isl (table_query_post env i))
          \<and> (\<exists>i < tableCount (d_rls (details response)). \<not> isl (table_query_post env i))
        \<longrightarrow> f_rls (labels response) = ''partially_fixed'')
     \<and> (isl (query_post env ''rls_batch_enable'')
          \<and> (\<forall>i < tableCount (d_rls (details response)). isl (table_query_post env i))
        \<longrightarrow> f_rls (labels response) = ''failed'')
     \<and> (\<not> success (d_rls (details response)) \<longrightarrow>
          f_rls (labels response)
            = (if list_ex tf_success (tables (d_rls (details response)))
               then ''partially_fixed'' else ''failed''))"
    unfolding d l c using nd ok fb pos [unfolded d c] by auto
qed

lemmas fix_eval =
  compliance_fix_response fix_result_parts fix_mfa_def fix_rls_def fix_pitr_def fix_table_def
  mfa_status_def rls_status_def pitr_status_def table_ref_of_def to_str2_def executeQuery_def
  body_flag_def js_and_def js_or_def

theorem rls_fix_label_witness:
  "snd (compliance_fix (\<lambda>n. ''0'') (JObj []) remote_scenario)
     = Inr (projr (snd (compliance_fix (\<lambda>n. ''0'') (JObj []) remote_scenario)))
   \<and> truthy (needed (d_rls (details
         (projr (snd (compliance_fix (\<lambda>n. ''0'') (JObj []) remote_scenario))))))
   \<and> isl (query_post remote_scenario ''rls_batch_enable'')
   \<and> tableCount (d_rls (details
         (projr (snd (compliance_fix (\<lambda>n. ''0'') (JObj []) remote_scenario))))) = 1
   \<and> \<not> isl (table_query_post remote_scenario 0)
   \<and> f_rls (labels (projr (snd (compliance_fix (\<lambda>n. ''0'') (JObj []) remote_scenario))))
       = ''fixed''
   \<and> f_rls (labels (projr (snd (compliance_fix (\<lambda>n. ''0'') (JObj []) remote_two_tables))))
       = ''partially_fixed''
   \<and> f_rls (labels (projr (snd (compliance_fix (\<lambda>n. ''0'') (JObj []) remote_unreachable))))
       = ''no_action_needed''
   \<and> f_rls (labels (projr (snd (compliance_fix (\<lambda>n. ''0'') (JObj [])
         (remote_two_tables\<lparr>table_query_post := \<lambda>i. Inl (AxiosError ''Network Error'')\<rparr>)))))
       = ''failed''"
  using rls_fix_label
    [of "\<lambda>n. ''0''" "JObj []" remote_scenario
        "projr (snd (compliance_fix (\<lambda>n. ''0'') (JObj []) remote_scenario))"]
  by (simp add: fix_eval remote_scenario_def remote_two_tables_def remote_unreachable_def)

lemma status_requests:
  "requests (fst (mfa_status env)) = [GetAuthConfig]"
  "requests (fst (rls_status ns env))
     = [PostQuery ''rls_missing_tables_query'' rls_missing_tables_sql]"
  "requests (fst (pitr_status env)) = [GetBackups]"
proof -
  show "requests (fst (mfa_status env)) = [GetAuthConfig]"
    by (cases "auth_config_get env") (simp_all add: mfa_status_def Let_def)
  show "requests (fst (pitr_status env)) = [GetBackups]"
    by (cases "backups_get env") (simp_all add: pitr_status_def Let_def)
  show "requests (fst (rls_status ns env))
     = [PostQuery ''rls_missing_tables_query'' rls_missing_tables_sql]"
    by (cases "query_post env ''rls_missing_tables_query''")
       (simp_all add: rls_status_def executeQuery_def Let_def requests_append
         split: sum.splits)
qed

lemma probe_failure_needsFix:
  "isl (auth_config_get env) \<Longrightarrow> \<not> needsFix (snd (mfa_status env))"
  "isl (query_post env ''rls_missing_tables_query'')
   \<Longrightarrow> \<not> needsFix (snd (rls_status ns env))"
  "isl (backups_get env) \<Longrightarrow> \<not> needsFix (snd (pitr_status env))"
proof -
  show "isl (auth_config_get env) \<Longrightarrow> \<not> needsFix (snd (mfa_status env))"
    by (cases "auth_config_get env") (simp_all add: mfa_status_def)
  show "isl (backups_get env) \<Longrightarrow> \<not> needsFix (snd (pitr_status env))"
    by (cases "backups_get env") (simp_all add: pitr_status_def)
  show "isl (query_post env ''rls_missing_tables_query'')
        \<Longrightarrow> \<not> needsFix (snd (rls_status ns env))"
    by (cases "query_post env ''rls_missing_tables_query''")
       (simp_all add: rls_status_def executeQuery_def)
qed

lemma not_planned: "\<not> truthy (js_and (JBool False) flag)"
  by (simp add: js_and_def)

lemma fixer_idle:
  "\<not> truthy n \<Longrightarrow> fst (fix_mfa n env) = []"
  "\<not> truthy n \<Longrightarrow> fst (fix_rls ns n ts env) = []"
  "\<not> truthy n \<Longrightarrow> fst (fix_pitr n env) = []"
  by (simp_all add: fix_mfa_def fix_rls_def fix_pitr_def)

lemma fixer_needed:
  "needed (snd (fix_mfa n env)) = n"
  "needed (snd (fix_pitr n env)) = n"
proof -
  show "needed (snd (fix_mfa n env)) = n"
    by (cases "auth_config_patch env") (simp_all add: fix_mfa_def)
  show "needed (snd (fix_pitr n env)) = n"
    by (cases "query_post env ''pitr_enable_sql''"; cases "backups_patch env")
       (simp_all add: fix_pitr_def executeQuery_def)
qed

lemma fix_mfa_requests: "set (requests (fst (fix_mfa n env))) \<subseteq> {PatchAuthConfig}"
  by (cases "auth_config_patch env") (simp_all add: fix_mfa_def)

lemma fix_pitr_requests:
  "set (requests (fst (fix_pitr n env)))
     \<subseteq> {PostQuery ''pitr_enable_sql'' pitr_enable_sql, PatchBackups}"
  by (cases "query_post env ''pitr_enable_sql''"; cases "backups_patch env")
     (simp_all add: fix_pitr_def executeQuery_def requests_append)

lemma fix_table_requests:
  "requests (fst (fix_table env i t))
     = [PostQuery (''rls_enable_'' @ fst t @ ''_'' @ snd t) (alter_stmt t)]"
  by (cases "table_query_post env i")
     (simp_all add: fix_table_def executeQuery_def requests_append)

lemma requests_concat: "requests (concat xss) = concat (map requests xss)"
  by (induction xss) (simp_all add: requests_append)

lemma fix_rls_requests:
  "r \<in> set (requests (fst (fix_rls ns n ts env)))
   \<Longrightarrow> \<exists>name q. r = PostQuery name q \<and> take 4 name = ''rls_''"
  by (cases "query_post env ''rls_batch_enable''")
     (auto simp: fix_rls_def executeQuery_def requests_append requests_concat Let_def
        fix_table_requests split: if_splits sum.splits)

text \<open>
  C9. In a fix call, when a status probe of the planning step throws (the auth-config
  fetch, the missing-tables query, or the backups fetch), the probe reports
  \<^verbatim>\<open>needsFix: false\<close>: the category is not needed, its label is
  \<^verbatim>\<open>no_action_needed\<close>, and the call sends no remediation request for it (no PATCH of
  the auth configuration; no SQL statement other than the probe's and the PITR one; no
  PITR statement and no PATCH of the backups configuration).
\<close>

theorem failed_probe_means_no_action:
  "snd (compliance_fix ns body env) = Inr response \<longrightarrow>
     (isl (auth_config_get env) \<longrightarrow>
        \<not> needsFix (snd (mfa_status env))
        \<and> \<not> truthy (needed (d_mfa (details response)))
        \<and> f_mfa (labels response) = ''no_action_needed''
        \<and> PatchAuthConfig \<notin> set (requests (fst (compliance_fix ns body env))))
     \<and> (isl (query_post env ''rls_missing_tables_query'') \<longrightarrow>
        \<not> needsFix (snd (rls_status ns env))
        \<and> \<not> truthy (needed (d_rls (details response)))
        \<and> f_rls (labels response) = ''no_action_needed''
        \<and> (\<forall>name q. PostQuery name q \<in> set (requests (fst (compliance_fix ns body env)))
              \<longrightarrow> name = ''rls_missing_tables_query'' \<or> name = ''pitr_enable_sql''))
     \<and> (isl (backups_get env) \<longrightarrow>
        \<not> needsFix (snd (pitr_status env))
        \<and> \<not> truthy (needed (d_pitr (details response)))
        \<and> f_pitr (labels response) = ''no_action_needed''
        \<and> PatchBackups \<notin> set (requests (fst (compliance_fix ns body env)))
        \<and> (\<forall>q. PostQuery ''pitr_enable_sql'' q
                \<notin> set (requests (fst (compliance_fix ns body env)))))"
proof
  let ?m = "js_and (JBool (needsFix (snd (mfa_status env)))) (body_flag body ''fixMfa'')"
  let ?r = "js_and (JBool (needsFix (snd (rls_status ns env)))) (body_flag body ''fixRls'')"
  let ?p = "js_and (JBool (needsFix (snd (pitr_status env)))) (body_flag body ''fixPitr'')"
  let ?ts = "st_tables (snd (rls_status ns env))"
  let ?trail = "fst (compliance_fix ns body env)"
  assume "snd (compliance_fix ns body env) = Inr response"
  then have b: "\<not> nullish body"
    and resp: "response = fix_result (snd (fix_mfa ?m env))
                            (projr (snd (fix_rls ns ?r ?ts env))) (snd (fix_pitr ?p env))"
    by (auto simp: compliance_fix_response split: if_splits)
  obtain out where o: "snd (fix_rls ns ?r ?ts env) = Inr out"
    using compliance_fix_rls_returns by blast
  note req = compliance_fix_requests [OF b, of ns env] status_requests
  have rls_names: "name \<noteq> ''pitr_enable_sql''"
    if "PostQuery name q \<in> set (requests (fst (fix_rls ns ?r ?ts env)))" for name q
    using fix_rls_requests [OF that] by auto
  have mfa: "\<not> needsFix (snd (mfa_status env))
        \<and> \<not> truthy (needed (d_mfa (details response)))
        \<and> f_mfa (labels response) = ''no_action_needed''
        \<and> PatchAuthConfig \<notin> set (requests ?trail)"
    if f: "isl (auth_config_get env)"
  proof -
    from f have n: "\<not> needsFix (snd (mfa_status env))" by (rule probe_failure_needsFix)
    then have idle: "\<not> truthy ?m" by (simp add: not_planned)
    have "PatchAuthConfig \<notin> set (requests ?trail)"
      using fix_rls_requests [of PatchAuthConfig ns ?r ?ts env] fix_pitr_requests [of ?p env]
      by (auto simp: req fixer_idle [OF idle])
    with n idle show ?thesis by (simp add: resp fix_result_parts fixer_needed)
  qed
  have rls: "\<not> needsFix (snd (rls_status ns env))
        \<and> \<not> truthy (needed (d_rls (details response)))
        \<and> f_rls (labels response) = ''no_action_needed''
        \<and> (\<forall>name q. PostQuery name q \<in> set (requests ?trail)
              \<longrightarrow> name = ''rls_missing_tables_query'' \<or> name = ''pitr_enable_sql'')"
    if f: "isl (query_post env ''rls_missing_tables_query'')"
  proof -
    from f have n: "\<not> needsFix (snd (rls_status ns env))" by (rule probe_failure_needsFix)
    then have idle: "\<not> truthy ?r" by (simp add: not_planned)
    have "\<forall>name q. PostQuery name q \<in> set (requests ?trail)
              \<longrightarrow> name = ''rls_missing_tables_query'' \<or> name = ''pitr_enable_sql''"
      using fix_mfa_requests [of ?m env] fix_pitr_requests [of ?p env]
      by (auto simp: req fixer_idle [OF idle])
    moreover have nd: "needed (projr (snd (fix_rls ns ?r ?ts env))) = ?r"
      using fix_rls_fields [OF o] by (simp add: o)
    have "\<not> truthy (needed (d_rls (details response)))
          \<and> f_rls (labels response) = ''no_action_needed''"
      using idle by (simp add: resp fix_result_parts nd)
    ultimately show ?thesis using n by blast
  qed
  have pitr: "\<not> needsFix (snd (pitr_status env))
        \<and> \<not> truthy (needed (d_pitr (details response)))
        \<and> f_pitr (labels response) = ''no_action_needed''
        \<and> PatchBackups \<notin> set (requests ?trail)
        \<and> (\<forall>q. PostQuery ''pitr_enable_sql'' q \<notin> set (requests ?trail))"
    if f: "isl (backups_get env)"
  proof -
    from f have n: "\<not> needsFix (snd (pitr_status env))" by (rule probe_failure_needsFix)
    then have idle: "\<not> truthy ?p" by (simp add: not_planned)
    have "PatchBackups \<notin> set (requests ?trail)"
      using fix_mfa_requests [of ?m env] fix_rls_requests [of PatchBackups ns ?r ?ts env]
      by (auto simp: req fixer_idle [OF idle])
    moreover have "\<forall>q. PostQuery ''pitr_enable_sql'' q \<notin> set (requests ?trail)"
      using fix_mfa_requests [of ?m env] rls_names
      by (auto simp: req fixer_idle [OF idle])
    ultimately show ?thesis using n idle by (simp add: resp fix_result_parts fixer_needed)
  qed
  from mfa rls pitr show
    "(isl (auth_config_get env) \<longrightarrow>
        \<not> needsFix (snd (mfa_status env))
        \<and> \<not> truthy (needed (d_mfa (details response)))
        \<and> f_mfa (labels response) = ''no_action_needed''
        \<and> PatchAuthConfig \<notin> set (requests ?trail))
     \<and> (isl (query_post env ''rls_missing_tables_query'') \<longrightarrow>
        \<not> needsFix (snd (rls_status ns env))
        \<and> \<not> truthy (needed (d_rls (details response)))
        \<and> f_rls (labels response) = ''no_action_needed''
        \<and> (\<forall>name q. PostQuery name q \<in> set (requests ?trail)
              \<longrightarrow> name = ''rls_missing_tables_query'' \<or> name = ''pitr_enable_sql''))
     \<and> (isl (backups_get env) \<longrightarrow>
        \<not> needsFix (snd (pitr_status env))
        \<and> \<not> truthy (needed (d_pitr (details response)))
        \<and> f_pitr (labels response) = ''no_action_needed''
        \<and> PatchBackups \<notin> set (requests ?trail)
        \<and> (\<forall>q. PostQuery ''pitr_enable_sql'' q \<notin> set (requests ?trail)))"
    by blast
qed

theorem failed_probe_means_no_action_witness:
  "snd (compliance_fix (\<lambda>n. ''0'') (JObj []) remote_unreachable)
     = Inr (projr (snd (compliance_fix (\<lambda>n. ''0'') (JObj []) remote_unreachable)))
   \<and> isl (auth_config_get remote_unreachable)
   \<and> isl (query_post remote_unreachable ''rls_missing_tables_query'')
   \<and> isl (backups_get remote_unreachable)
   \<and> labels (projr (snd (compliance_fix (\<lambda>n. ''0'') (JObj []) remote_unreachable)))
       = \<lparr>f_mfa = ''no_action_needed'', f_rls = ''no_action_needed'',
          f_pitr = ''no_action_needed''\<rparr>
   \<and> requests (fst (compliance_fix (\<lambda>n. ''0'') (JObj []) remote_unreachable))
       = [GetAuthConfig, PostQuery ''rls_missing_tables_query'' rls_missing_tables_sql,
          GetBackups]"
  using failed_probe_means_no_action
    [of "\<lambda>n. ''0''" "JObj []" remote_unreachable
        "projr (snd (compliance_fix (\<lambda>n. ''0'') (JObj []) remote_unreachable))"]
  by (simp add: compliance_fix_response compliance_fix_requests status_requests fix_result_def
      fix_mfa_def fix_rls_def fix_pitr_def mfa_status_def rls_status_def pitr_status_def
      executeQuery_def body_flag_def js_and_def remote_unreachable_def)

end
